theory Spec2Isabelle
  imports Complex_Main
begin

section \<open>Python values shared by both front ends\<close>

text \<open>
  The repository has two front ends over the same three operations: the request
  service (\<^verbatim>\<open>services.py\<close>, called from \<^verbatim>\<open>app.py\<close>) and the interactive form
  (\<^verbatim>\<open>Ai_resume.py\<close>). Functions of \<^verbatim>\<open>services.py\<close> carry the suffix \<open>_svc\<close>,
  functions of \<^verbatim>\<open>Ai_resume.py\<close> the suffix \<open>_st\<close>, since both files use the same
  names.

  Exceptions are values. Each constructor carries the text that \<^verbatim>\<open>str(e)\<close>
  gives, except \<open>HTTPException\<close>, which carries its status code and detail.
  \<open>RequestException\<close> stands for \<^verbatim>\<open>requests.exceptions.RequestException\<close> and its
  subclasses, the one class the handlers tell apart from the rest.
\<close>

datatype exn =
    ValueError string
  | TypeError string
  | IndexError string
  | KeyError string
  | AttributeError string
  | RequestException string
  | HTTPException int string
  | OtherError string

type_synonym environ = "string \<rightharpoonup> string"

text \<open>
  Library behaviour the code relies on and does not define: \<^verbatim>\<open>int(s)\<close> and
  \<^verbatim>\<open>float(s)\<close> on a string, \<^verbatim>\<open>str(e)\<close> on an \<open>HTTPException\<close> (the text
  differs between versions of the web framework), and \<open>keyed_text\<close>: the text a
  keyed text widget of the form returns when it holds one text and is called with
  another as its \<^verbatim>\<open>value\<close> argument (versions of the form library differ on whether
  the widget keeps its text or starts again from the argument).
\<close>

record pylib =
  py_int :: "string \<Rightarrow> exn + int"
  py_float :: "string \<Rightarrow> exn + real"
  str_http :: "int \<Rightarrow> string \<Rightarrow> string"
  keyed_text :: "string \<Rightarrow> string \<Rightarrow> string"

fun str_exn :: "pylib \<Rightarrow> exn \<Rightarrow> string" where
  "str_exn L (ValueError m) = m"
| "str_exn L (TypeError m) = m"
| "str_exn L (IndexError m) = m"
| "str_exn L (KeyError m) = m"
| "str_exn L (AttributeError m) = m"
| "str_exn L (RequestException m) = m"
| "str_exn L (HTTPException c d) = str_http L c d"
| "str_exn L (OtherError m) = m"

text \<open>\<^verbatim>\<open>str(n)\<close> of an integer, for the f-strings.\<close>

definition digit_char :: "nat \<Rightarrow> char" where
  "digit_char d = char_of (48 + d)"

function show_nat :: "nat \<Rightarrow> string" where
  "show_nat n = (if n < 10 then [digit_char n] else show_nat (n div 10) @ [digit_char (n mod 10)])"
  by pat_completeness auto
termination
  by (relation "measure id") auto

definition show_int :: "int \<Rightarrow> string" where
  "show_int i = (if i < 0 then CHR ''-'' # show_nat (nat (- i)) else show_nat (nat i))"

text \<open>Truthiness of an optional string: \<^verbatim>\<open>None\<close> and the empty string are falsy.\<close>

definition truthy_str :: "string option \<Rightarrow> bool" where
  "truthy_str s = (case s of None \<Rightarrow> False | Some t \<Rightarrow> t \<noteq> [])"

text \<open>An optional string inside an f-string: \<^verbatim>\<open>None\<close> prints as \<^verbatim>\<open>None\<close>.\<close>

definition fmt_opt :: "string option \<Rightarrow> string" where
  "fmt_opt s = (case s of None \<Rightarrow> ''None'' | Some t \<Rightarrow> t)"

text \<open>\<^verbatim>\<open>int(os.getenv(key, d))\<close>: the default \<open>d\<close> is already an integer.\<close>

definition getenv_int :: "pylib \<Rightarrow> environ \<Rightarrow> string \<Rightarrow> int \<Rightarrow> exn + int" where
  "getenv_int L env k d = (case env k of None \<Rightarrow> Inr d | Some s \<Rightarrow> py_int L s)"

text \<open>
  \<^verbatim>\<open>float(os.getenv(key))\<close> with no default: \<^verbatim>\<open>float(None)\<close> raises
  \<open>TypeError\<close>.
\<close>

definition getenv_float :: "pylib \<Rightarrow> environ \<Rightarrow> string \<Rightarrow> exn + real" where
  "getenv_float L env k =
     (case env k of
        None \<Rightarrow> Inl (TypeError ''float() argument must be a string or a real number, not NoneType'')
      | Some s \<Rightarrow> py_float L s)"

section \<open>The upstream generation endpoint\<close>

record gen_params =
  max_new_tokens :: int
  temperature :: real
  do_sample :: bool
  top_p :: real
  return_full_text :: bool

record post_request =
  url :: string
  authorization :: string
  inputs :: string
  parameters :: gen_params
  wait_for_model :: bool
  timeout :: int

datatype json =
    JNull
  | JBool bool
  | JNum int
  | JStr string
  | JList "json list"
  | JObj "(string \<times> json) list"

text \<open>
  What the code reads of a response: the status code, the headers, the text of the
  error that \<^verbatim>\<open>raise_for_status()\<close> raises for it, and the outcome of \<^verbatim>\<open>json()\<close>.
\<close>

record response =
  status_code :: int
  headers :: "string \<rightharpoonup> string"
  http_error_text :: string
  json_body :: "exn + json"

text \<open>The endpoint itself: one POST either raises or yields a response.\<close>

type_synonym upstream = "post_request \<Rightarrow> exn + response"

definition raise_for_status :: "response \<Rightarrow> exn + unit" where
  "raise_for_status r =
     (if 400 \<le> status_code r \<and> status_code r < 600
      then Inl (RequestException (http_error_text r)) else Inr ())"

text \<open>\<^verbatim>\<open>int(response.headers.get("estimated_time", 30))\<close>\<close>

definition wait_time_of :: "pylib \<Rightarrow> response \<Rightarrow> exn + int" where
  "wait_time_of L r =
     (case headers r ''estimated_time'' of None \<Rightarrow> Inr 30 | Some s \<Rightarrow> py_int L s)"

text \<open>\<^verbatim>\<open>d.get(key, default)\<close> on the pairs of a JSON object.\<close>

definition obj_get :: "(string \<times> json) list \<Rightarrow> string \<Rightarrow> json \<Rightarrow> json" where
  "obj_get kvs k d = (case map_of kvs k of None \<Rightarrow> d | Some v \<Rightarrow> v)"

section \<open>Generation in the request service (\<^verbatim>\<open>services.py\<close>)\<close>

record svc_config =
  HF_API_KEY :: "string option"
  MODEL_NAME :: "string option"
  API_TIMEOUT :: int
  MAX_TEXT_LENGTH :: int

text \<open>The module-level configuration block; a malformed number fails the import.\<close>

definition load_config_svc :: "pylib \<Rightarrow> environ \<Rightarrow> exn + svc_config" where
  "load_config_svc L env =
     (case getenv_int L env ''API_TIMEOUT'' 30 of
        Inl e \<Rightarrow> Inl e
      | Inr t \<Rightarrow>
          (case getenv_int L env ''MAX_TEXT_LENGTH'' 500 of
             Inl e \<Rightarrow> Inl e
           | Inr m \<Rightarrow>
               Inr \<lparr>HF_API_KEY = env ''HF_API_KEY'', MODEL_NAME = env ''MODEL_NAME'',
                    API_TIMEOUT = t, MAX_TEXT_LENGTH = m\<rparr>))"

text \<open>\<^verbatim>\<open>min(max_length or MAX_TEXT_LENGTH, MAX_TEXT_LENGTH)\<close>\<close>

definition effective_max_length_svc :: "svc_config \<Rightarrow> int option \<Rightarrow> int" where
  "effective_max_length_svc cfg max_length =
     min (case max_length of
            None \<Rightarrow> MAX_TEXT_LENGTH cfg
          | Some n \<Rightarrow> if n = 0 then MAX_TEXT_LENGTH cfg else n)
         (MAX_TEXT_LENGTH cfg)"

text \<open>
  \<^verbatim>\<open>temperature or float(os.getenv('DEFAULT_TEMPERATURE'))\<close>. A temperature is a
  Python float; the code only tests it against zero and passes it on, so it is
  modelled as a real number.
\<close>

definition effective_temperature_svc :: "pylib \<Rightarrow> environ \<Rightarrow> real option \<Rightarrow> exn + real" where
  "effective_temperature_svc L env temp =
     (case temp of
        None \<Rightarrow> getenv_float L env ''DEFAULT_TEMPERATURE''
      | Some t \<Rightarrow> if t = 0 then getenv_float L env ''DEFAULT_TEMPERATURE'' else Inr t)"

text \<open>\<^verbatim>\<open>response.json()[0].get('generated_text', prompt)\<close>\<close>

definition first_generated_svc :: "response \<Rightarrow> string \<Rightarrow> exn + json" where
  "first_generated_svc r prompt =
     (case json_body r of
        Inl e \<Rightarrow> Inl e
      | Inr (JList []) \<Rightarrow> Inl (IndexError ''list index out of range'')
      | Inr (JList (JObj kvs # _)) \<Rightarrow> Inr (obj_get kvs ''generated_text'' (JStr prompt))
      | Inr (JList (_ # _)) \<Rightarrow> Inl (AttributeError ''object has no attribute get'')
      | Inr (JObj _) \<Rightarrow> Inl (KeyError ''0'')
      | Inr (JStr []) \<Rightarrow> Inl (IndexError ''string index out of range'')
      | Inr (JStr (_ # _)) \<Rightarrow> Inl (AttributeError ''object has no attribute get'')
      | Inr _ \<Rightarrow> Inl (TypeError ''object is not subscriptable''))"

text \<open>The arguments of the one \<^verbatim>\<open>requests.post\<close> call, for the temperature \<open>t\<close> in effect.\<close>

definition request_svc :: "svc_config \<Rightarrow> string \<Rightarrow> int option \<Rightarrow> real \<Rightarrow> post_request" where
  "request_svc cfg prompt max_length t =
     \<lparr>url = ''https://api-inference.huggingface.co/models/'' @ fmt_opt (MODEL_NAME cfg),
      authorization = ''Bearer '' @ fmt_opt (HF_API_KEY cfg),
      inputs = prompt,
      parameters = \<lparr>max_new_tokens = effective_max_length_svc cfg max_length,
                    temperature = t, do_sample = True, top_p = 9 / 10,
                    return_full_text = False\<rparr>,
      wait_for_model = True,
      timeout = API_TIMEOUT cfg\<rparr>"

text \<open>What \<^verbatim>\<open>generate_text\<close> does with a response that arrived.\<close>

definition on_response_svc :: "pylib \<Rightarrow> string \<Rightarrow> response \<Rightarrow> exn + json" where
  "on_response_svc L prompt r =
     (if status_code r = 503
      then (case wait_time_of L r of
              Inl e \<Rightarrow> Inl e
            | Inr w \<Rightarrow>
                Inl (HTTPException 503
                      (''Model loading, please wait '' @ show_int w @ '' seconds'')))
      else (case raise_for_status r of
              Inl e \<Rightarrow> Inl e
            | Inr _ \<Rightarrow> first_generated_svc r prompt))"

text \<open>
  The body of the \<^verbatim>\<open>try\<close> block of \<^verbatim>\<open>generate_text\<close>: its outcome, and the
  requests it sent upstream, in order.
\<close>

definition generate_text_body_svc ::
  "pylib \<Rightarrow> svc_config \<Rightarrow> environ \<Rightarrow> upstream \<Rightarrow> string \<Rightarrow> int option \<Rightarrow> real option
     \<Rightarrow> (exn + json) \<times> post_request list" where
  "generate_text_body_svc L cfg env post prompt max_length temp =
     (if \<not> truthy_str (HF_API_KEY cfg)
      then (Inl (ValueError ''Hugging Face API key not configured''), [])
      else
        (case effective_temperature_svc L env temp of
           Inl e \<Rightarrow> (Inl e, [])
         | Inr t \<Rightarrow>
             (case post (request_svc cfg prompt max_length t) of
                Inl e \<Rightarrow> (Inl e, [request_svc cfg prompt max_length t])
              | Inr r \<Rightarrow> (on_response_svc L prompt r, [request_svc cfg prompt max_length t]))))"

text \<open>
  The two \<^verbatim>\<open>except\<close> clauses around the body, in the source's order: a
  \<open>RequestException\<close> becomes status 502, every other exception (an
  \<open>HTTPException\<close> raised inside the body included) becomes status 500.
\<close>

fun except_svc :: "pylib \<Rightarrow> exn + json \<Rightarrow> exn + json" where
  "except_svc L (Inr v) = Inr v"
| "except_svc L (Inl (RequestException m)) = Inl (HTTPException 502 (''API request failed: '' @ m))"
| "except_svc L (Inl e) = Inl (HTTPException 500 (str_exn L e))"

definition generate_text_svc ::
  "pylib \<Rightarrow> svc_config \<Rightarrow> environ \<Rightarrow> upstream \<Rightarrow> string \<Rightarrow> int option \<Rightarrow> real option
     \<Rightarrow> (exn + json) \<times> post_request list" where
  "generate_text_svc L cfg env post prompt max_length temp =
     (case generate_text_body_svc L cfg env post prompt max_length temp of
        (res, sent) \<Rightarrow> (except_svc L res, sent))"

text \<open>
  The endpoint \<^verbatim>\<open>/generate-text\<close> of \<^verbatim>\<open>app.py\<close>: the HTTP status the caller
  receives. An \<open>HTTPException\<close> goes out with its own status code, any other exception
  as an internal server error.
\<close>

definition text_generation_status ::
  "pylib \<Rightarrow> svc_config \<Rightarrow> environ \<Rightarrow> upstream \<Rightarrow> string \<Rightarrow> int option \<Rightarrow> real option \<Rightarrow> int" where
  "text_generation_status L cfg env post prompt max_length temp =
     (case fst (generate_text_svc L cfg env post prompt max_length temp) of
        Inr _ \<Rightarrow> 200
      | Inl (HTTPException c _) \<Rightarrow> c
      | Inl _ \<Rightarrow> 500)"


section \<open>Generation in the interactive form (\<^verbatim>\<open>Ai_resume.py\<close>)\<close>

text \<open>What the form shows the user: its \<^verbatim>\<open>st.error\<close>, \<^verbatim>\<open>st.warning\<close>, \<^verbatim>\<open>st.success\<close>
  calls and the download button (file bytes, file name).\<close>

datatype ui_msg =
    StError string
  | StWarning string
  | StSuccess string
  | DownloadButton string string

record st_config =
  HF_API_KEY_st :: "string option"
  DEFAULT_TEMPLATE :: string
  PDF_FONT :: string
  PDF_FONT_SIZE :: int
  MAX_TEXT_LENGTH_st :: int
  MODEL_NAME_st :: string
  API_TIMEOUT_st :: int

definition getenv_str :: "environ \<Rightarrow> string \<Rightarrow> string \<Rightarrow> string" where
  "getenv_str env k d = (case env k of None \<Rightarrow> d | Some s \<Rightarrow> s)"

definition load_config_st :: "pylib \<Rightarrow> environ \<Rightarrow> exn + st_config" where
  "load_config_st L env =
     (case getenv_int L env ''PDF_FONT_SIZE'' 12 of
        Inl e \<Rightarrow> Inl e
      | Inr fs \<Rightarrow>
          (case getenv_int L env ''MAX_TEXT_LENGTH'' 500 of
             Inl e \<Rightarrow> Inl e
           | Inr m \<Rightarrow>
               (case getenv_int L env ''API_TIMEOUT'' 30 of
                  Inl e \<Rightarrow> Inl e
                | Inr t \<Rightarrow>
                    Inr \<lparr>HF_API_KEY_st = env ''HF_API_KEY'',
                         DEFAULT_TEMPLATE = getenv_str env ''DEFAULT_TEMPLATE'' ''Professional'',
                         PDF_FONT = getenv_str env ''PDF_FONT'' ''Arial'',
                         PDF_FONT_SIZE = fs,
                         MAX_TEXT_LENGTH_st = m,
                         MODEL_NAME_st = getenv_str env ''MODEL_NAME'' ''google/flan-t5-large'',
                         API_TIMEOUT_st = t\<rparr>)))"

text \<open>
  \<^verbatim>\<open>min(max_length, MAX_TEXT_LENGTH)\<close> with the parameter default
  \<^verbatim>\<open>max_length: int = 200\<close>; \<open>None\<close> stands for an omitted argument.
\<close>

definition effective_max_length_st :: "st_config \<Rightarrow> int option \<Rightarrow> int" where
  "effective_max_length_st cfg max_length =
     min (case max_length of None \<Rightarrow> 200 | Some n \<Rightarrow> n) (MAX_TEXT_LENGTH_st cfg)"

definition request_st :: "st_config \<Rightarrow> string \<Rightarrow> int option \<Rightarrow> real option \<Rightarrow> post_request" where
  "request_st cfg prompt max_length temp =
     \<lparr>url = ''https://api-inference.huggingface.co/models/'' @ MODEL_NAME_st cfg,
      authorization = ''Bearer '' @ fmt_opt (HF_API_KEY_st cfg),
      inputs = prompt,
      parameters = \<lparr>max_new_tokens = effective_max_length_st cfg max_length,
                    temperature = (case temp of None \<Rightarrow> 7 / 10 | Some t \<Rightarrow> t),
                    do_sample = True, top_p = 9 / 10, return_full_text = False\<rparr>,
      wait_for_model = True,
      timeout = API_TIMEOUT_st cfg\<rparr>"

text \<open>
  The part of the \<^verbatim>\<open>try\<close> block after the response arrived: either an exception,
  or the returned value with the messages shown on the way.
\<close>

definition on_response_st :: "pylib \<Rightarrow> string \<Rightarrow> response \<Rightarrow> exn + (json \<times> ui_msg list)" where
  "on_response_st L prompt r =
     (if status_code r = 503
      then (case wait_time_of L r of
              Inl e \<Rightarrow> Inl e
            | Inr w \<Rightarrow>
                Inr (JStr [],
                     [StWarning (''Model is loading. Please wait '' @ show_int w @ '' seconds.'')]))
      else (case raise_for_status r of
              Inl e \<Rightarrow> Inl e
            | Inr _ \<Rightarrow>
                (case json_body r of
                   Inl e \<Rightarrow> Inl e
                 | Inr (JList (JObj kvs # _)) \<Rightarrow>
                     Inr (obj_get kvs ''generated_text'' (JStr prompt), [])
                 | Inr (JList (_ # _)) \<Rightarrow> Inl (AttributeError ''object has no attribute get'')
                 | Inr _ \<Rightarrow> Inr (JStr prompt, []))))"

text \<open>The two \<^verbatim>\<open>except\<close> clauses: both show an error and return the empty string.\<close>

fun except_st :: "pylib \<Rightarrow> exn + (json \<times> ui_msg list) \<Rightarrow> json \<times> ui_msg list" where
  "except_st L (Inr v) = v"
| "except_st L (Inl (RequestException m)) = (JStr [], [StError (''API request failed: '' @ m)])"
| "except_st L (Inl e) = (JStr [], [StError (''Text generation error: '' @ str_exn L e)])"

text \<open>The returned value, the messages shown, and the requests sent upstream.\<close>

definition generate_text_st ::
  "pylib \<Rightarrow> st_config \<Rightarrow> upstream \<Rightarrow> string \<Rightarrow> int option \<Rightarrow> real option
     \<Rightarrow> (json \<times> ui_msg list) \<times> post_request list" where
  "generate_text_st L cfg post prompt max_length temp =
     (if \<not> truthy_str (HF_API_KEY_st cfg)
      then ((JStr [], [StError ''Hugging Face API key not configured'']), [])
      else
        (case post (request_st cfg prompt max_length temp) of
           Inl e \<Rightarrow> (except_st L (Inl e), [request_st cfg prompt max_length temp])
         | Inr r \<Rightarrow>
             (except_st L (on_response_st L prompt r), [request_st cfg prompt max_length temp])))"

section \<open>Spelling correction\<close>

text \<open>
  The spelling library is external: \<open>correct\<close> is \<^verbatim>\<open>str(TextBlob(t).correct())\<close>
  and \<open>words\<close> is \<^verbatim>\<open>TextBlob(t).words\<close>; either may raise. Every use of the library
  is logged, so that a run which does not touch it is told apart from one that does.
\<close>

record textblob =
  correct :: "string \<Rightarrow> exn + string"
  words :: "string \<Rightarrow> exn + string list"

datatype tb_call = Correct string | Words string

text \<open>
  \<^verbatim>\<open>text.strip()\<close>: the characters Python counts as whitespace, among the
  one-byte code points.
\<close>

definition isspace :: "char \<Rightarrow> bool" where
  "isspace c = ((of_char c :: nat) \<in> {9, 10, 11, 12, 13, 28, 29, 30, 31, 32, 133, 160})"

definition strip :: "string \<Rightarrow> string" where
  "strip s = rev (dropWhile isspace (rev (dropWhile isspace s)))"

text \<open>
  The list comprehension
  \<^verbatim>\<open>[str(word) for i, word in enumerate(blob.words)
      if i < len(TextBlob(corrected).words) and word != TextBlob(corrected).words[i]]\<close>
  from position \<open>i\<close> on. The corrected text is tokenised anew for the length test and,
  when that passes, once more for the comparison.
\<close>

fun misspelled_loop ::
  "textblob \<Rightarrow> string \<Rightarrow> nat \<Rightarrow> string list \<Rightarrow> (exn + string list) \<times> tb_call list" where
  "misspelled_loop T corrected i [] = (Inr [], [])"
| "misspelled_loop T corrected i (w # ws) =
     (case words T corrected of
        Inl e \<Rightarrow> (Inl e, [Words corrected])
      | Inr c \<Rightarrow>
          (case misspelled_loop T corrected (Suc i) ws of
             (Inl e, cs) \<Rightarrow>
               (Inl e, (if i < length c then [Words corrected, Words corrected]
                        else [Words corrected]) @ cs)
           | (Inr r, cs) \<Rightarrow>
               (Inr (if i < length c \<and> w \<noteq> c ! i then w # r else r),
                (if i < length c then [Words corrected, Words corrected]
                 else [Words corrected]) @ cs)))"

text \<open>The statements after the blank-input test, shared by both files.\<close>

definition correct_and_compare ::
  "textblob \<Rightarrow> string \<Rightarrow> (exn + string \<times> string list) \<times> tb_call list" where
  "correct_and_compare T text =
     (case correct T text of
        Inl e \<Rightarrow> (Inl e, [Correct text])
      | Inr corrected \<Rightarrow>
          (case words T text of
             Inl e \<Rightarrow> (Inl e, [Correct text, Words text])
           | Inr ow \<Rightarrow>
               (case misspelled_loop T corrected 0 ow of
                  (Inl e, cs) \<Rightarrow> (Inl e, [Correct text, Words text] @ cs)
                | (Inr ms, cs) \<Rightarrow> (Inr (corrected, ms), [Correct text, Words text] @ cs))))"

text \<open>\<^verbatim>\<open>check_spelling\<close> of \<^verbatim>\<open>services.py\<close>: any exception becomes status 500.\<close>

definition check_spelling_svc ::
  "pylib \<Rightarrow> textblob \<Rightarrow> string \<Rightarrow> (exn + string \<times> string list) \<times> tb_call list" where
  "check_spelling_svc L T text =
     (if strip text = [] then (Inr (text, []), [])
      else (case correct_and_compare T text of
              (Inl e, cs) \<Rightarrow> (Inl (HTTPException 500 (''Spell check error: '' @ str_exn L e)), cs)
            | (Inr res, cs) \<Rightarrow> (Inr res, cs)))"

text \<open>
  \<^verbatim>\<open>check_spelling\<close> of \<^verbatim>\<open>Ai_resume.py\<close>: an exception is shown and the input comes
  back with no misspelled words. The result, the messages shown, the library calls.
\<close>

definition check_spelling_st ::
  "pylib \<Rightarrow> textblob \<Rightarrow> string \<Rightarrow> (string \<times> string list) \<times> ui_msg list \<times> tb_call list" where
  "check_spelling_st L T text =
     (if strip text = [] then ((text, []), [], [])
      else (case correct_and_compare T text of
              (Inl e, cs) \<Rightarrow> ((text, []), [StError (''Spell check error: '' @ str_exn L e)], cs)
            | (Inr res, cs) \<Rightarrow> (res, [], cs)))"

text \<open>
  The comparison as the specification words it: the two tokenisations are paired
  position by position, as far as the shorter one reaches, and the original token of
  each differing pair is reported.
\<close>

definition positional_diff :: "string list \<Rightarrow> string list \<Rightarrow> string list" where
  "positional_diff orig corr = map fst (filter (\<lambda>p. fst p \<noteq> snd p) (zip orig corr))"

section \<open>Rendering\<close>

text \<open>
  The PDF library is external. A rendering is modelled by the calls made on the
  \<^verbatim>\<open>FPDF\<close> object, in order: \<^verbatim>\<open>add_page()\<close>,
  \<^verbatim>\<open>set_font(family, style, size)\<close> (an omitted family or size keeps the current
  one, an omitted style is the regular style \<^verbatim>\<open>''\<close>),
  \<^verbatim>\<open>cell(w, h, txt, ln, align)\<close>, \<^verbatim>\<open>multi_cell(w, h, txt)\<close> and \<^verbatim>\<open>ln(h)\<close>.
  The library turns the calls into the bytes of the file, or raises.
\<close>

datatype pdf_op =
    AddPage
  | SetFont "string option" string "int option"
  | Cell int int string int string
  | MultiCell int int string
  | Ln int

type_synonym fpdf = "pdf_op list \<Rightarrow> exn + string"

record education_entry =
  degree :: string
  school :: string
  year :: string
  achievements_edu :: string
  gpa :: string

record experience_entry =
  role :: string
  company :: string
  years :: string
  months :: int
  description :: string
  achievements_exp :: string
  location :: string

record resume_data =
  data_name :: string
  data_contact :: string
  data_summary :: string
  data_education :: "education_entry list"
  data_experience :: "experience_entry list"
  data_skills_technical :: string
  data_skills_soft :: string
  data_projects :: string
  data_certifications :: string
  data_languages :: string
  data_publications :: string
  data_volunteer :: string

text \<open>\<^verbatim>\<open>str.capitalize()\<close> on the ASCII section names.\<close>

definition upper_char :: "char \<Rightarrow> char" where
  "upper_char c =
     (if 97 \<le> (of_char c :: nat) \<and> (of_char c :: nat) \<le> 122
      then char_of ((of_char c :: nat) - 32) else c)"

definition lower_char :: "char \<Rightarrow> char" where
  "lower_char c =
     (if 65 \<le> (of_char c :: nat) \<and> (of_char c :: nat) \<le> 90
      then char_of ((of_char c :: nat) + 32) else c)"

fun capitalize :: "string \<Rightarrow> string" where
  "capitalize [] = []"
| "capitalize (c # cs) = upper_char c # map lower_char cs"

text \<open>A section title: bold on, the title on a line of its own, bold off.\<close>

definition heading_ops :: "string \<Rightarrow> pdf_op list" where
  "heading_ops title = [SetFont None ''B'' None, Cell 0 10 title 1 [], SetFont None [] None]"

text \<open>
  One pass of the entry loop of \<^verbatim>\<open>create_pdf\<close> in \<^verbatim>\<open>Ai_resume.py\<close>. An
  education entry has no \<^verbatim>\<open>description\<close> key, so \<^verbatim>\<open>entry.get('description')\<close>
  is \<^verbatim>\<open>None\<close> for it.
\<close>

definition education_ops :: "education_entry \<Rightarrow> pdf_op list" where
  "education_ops e =
     [MultiCell 0 10 (degree e @ '' | '' @ school e @ '' | '' @ year e
                      @ (if gpa e \<noteq> [] then '' | GPA: '' @ gpa e else []))]
     @ (if achievements_edu e \<noteq> [] then [MultiCell 0 10 (''Achievements: '' @ achievements_edu e)]
        else [])
     @ [Ln 5]"

definition experience_ops :: "experience_entry \<Rightarrow> pdf_op list" where
  "experience_ops e =
     [MultiCell 0 10 (role e @ '' | '' @ company e @ '' | '' @ years e @ '' years''
                      @ (if location e \<noteq> [] then '' | '' @ location e else []))]
     @ (if description e \<noteq> [] then [MultiCell 0 10 (description e)] else [])
     @ (if achievements_exp e \<noteq> [] then [MultiCell 0 10 (''Achievements: '' @ achievements_exp e)]
        else [])
     @ [Ln 5]"

text \<open>The calls of \<^verbatim>\<open>create_pdf\<close> in \<^verbatim>\<open>Ai_resume.py\<close>, up to \<^verbatim>\<open>pdf.output\<close>.\<close>

definition pdf_ops_st :: "st_config \<Rightarrow> resume_data \<Rightarrow> pdf_op list" where
  "pdf_ops_st cfg d =
     [AddPage,
      SetFont (Some (PDF_FONT cfg)) [] (Some (PDF_FONT_SIZE cfg)),
      SetFont None [] (Some 24),
      Cell 0 10 (data_name d) 1 ''C'',
      SetFont None [] (Some 12),
      Cell 0 10 (data_contact d) 1 ''C'',
      Ln 10]
     @ heading_ops ''Professional Summary''
     @ [MultiCell 0 10 (data_summary d), Ln 10]
     @ heading_ops (capitalize ''education'')
     @ concat (map education_ops (data_education d))
     @ heading_ops (capitalize ''experience'')
     @ concat (map experience_ops (data_experience d))"

definition create_pdf_st ::
  "fpdf \<Rightarrow> pylib \<Rightarrow> st_config \<Rightarrow> resume_data \<Rightarrow> string option \<times> ui_msg list" where
  "create_pdf_st F L cfg d =
     (case F (pdf_ops_st cfg d) of
        Inl e \<Rightarrow> (None, [StError (''PDF generation failed: '' @ str_exn L e)])
      | Inr bytes \<Rightarrow> (Some bytes, []))"

text \<open>\<^verbatim>\<open>create_pdf\<close> of \<^verbatim>\<open>services.py\<close>, on the dictionary built by \<^verbatim>\<open>app.py\<close>.\<close>

record resume_input =
  input_name :: string
  input_summary :: string
  input_experiences :: "string list"
  input_education :: "string list"
  input_skills :: "string list"

definition section_ops_svc :: "string \<Rightarrow> string list \<Rightarrow> pdf_op list" where
  "section_ops_svc section items =
     Ln 10 # heading_ops (capitalize section) @ map (\<lambda>item. MultiCell 0 10 (''- '' @ item)) items"

definition pdf_ops_svc :: "string \<Rightarrow> int \<Rightarrow> int \<Rightarrow> resume_input \<Rightarrow> pdf_op list" where
  "pdf_ops_svc font font_size title_size d =
     [AddPage,
      SetFont (Some font) [] (Some font_size),
      SetFont None [] (Some title_size),
      Cell 0 10 (input_name d) 1 ''C'',
      SetFont None [] (Some font_size),
      MultiCell 0 10 (input_summary d)]
     @ section_ops_svc ''experiences'' (input_experiences d)
     @ section_ops_svc ''education'' (input_education d)
     @ section_ops_svc ''skills'' (input_skills d)"

definition create_pdf_svc :: "fpdf \<Rightarrow> pylib \<Rightarrow> environ \<Rightarrow> resume_input \<Rightarrow> exn + string" where
  "create_pdf_svc F L env d =
     (case (case getenv_int L env ''PDF_FONT_SIZE'' 12 of
              Inl e \<Rightarrow> Inl e
            | Inr fs \<Rightarrow>
                (case getenv_int L env ''PDF_TITLE_SIZE'' 24 of
                   Inl e \<Rightarrow> Inl e
                 | Inr ts \<Rightarrow> F (pdf_ops_svc (getenv_str env ''PDF_FONT'' ''Arial'') fs ts d))) of
        Inl e \<Rightarrow> Inl (HTTPException 500 (''PDF generation failed: '' @ str_exn L e))
      | Inr bytes \<Rightarrow> Inr bytes)"

text \<open>
  Reading a sequence of calls back: the texts drawn while the bold style is on
  (\<open>b\<close> is the style in effect), and all the texts drawn.
\<close>

fun bold_text :: "bool \<Rightarrow> pdf_op list \<Rightarrow> string list" where
  "bold_text b [] = []"
| "bold_text b (SetFont f s z # ops) = bold_text (CHR ''B'' \<in> set s) ops"
| "bold_text b (Cell w h t l a # ops) = (if b then t # bold_text b ops else bold_text b ops)"
| "bold_text b (MultiCell w h t # ops) = (if b then t # bold_text b ops else bold_text b ops)"
| "bold_text b (AddPage # ops) = bold_text b ops"
| "bold_text b (Ln h # ops) = bold_text b ops"

fun drawn_text :: "pdf_op list \<Rightarrow> string list" where
  "drawn_text [] = []"
| "drawn_text (Cell w h t l a # ops) = t # drawn_text ops"
| "drawn_text (MultiCell w h t # ops) = t # drawn_text ops"
| "drawn_text (AddPage # ops) = drawn_text ops"
| "drawn_text (SetFont f s z # ops) = drawn_text ops"
| "drawn_text (Ln h # ops) = drawn_text ops"

section \<open>The interactive form controller (\<^verbatim>\<open>Ai_resume.py\<close>)\<close>

text \<open>
  The keys of the correction cache \<^verbatim>\<open>st.session_state.spelling_errors\<close>. The
  spell-check action creates exactly the keys \<^verbatim>\<open>'summary'\<close>, \<^verbatim>\<open>'skills'\<close> and
  \<^verbatim>\<open>f'exp_desc_{i}'\<close>, and the apply action tells the same three forms apart, reading
  the index back from the third.
\<close>

datatype field = Summary | Skills | ExpDesc nat

record session =
  name :: string
  email :: string
  phone :: string
  linkedin :: string
  github :: string
  portfolio :: string
  address :: string
  summary :: string
  technical_skills :: string
  soft_skills :: string
  template :: string
  projects :: string
  certifications :: string
  languages :: string
  publications :: string
  volunteer :: string
  education_entries :: "education_entry list"
  experience_entries :: "experience_entry list"
  spelling_errors :: "(field \<times> string \<times> string list) list option"
  generated_text :: "json option"

definition default_education :: education_entry where
  "default_education = \<lparr>degree = [], school = [], year = [], achievements_edu = [], gpa = []\<rparr>"

definition default_experience :: experience_entry where
  "default_experience =
     \<lparr>role = [], company = [], years = [], months = 0, description = [],
      achievements_exp = [], location = []\<rparr>"

definition init_session :: session where
  "init_session =
     \<lparr>name = [], email = [], phone = [], linkedin = [], github = [], portfolio = [],
      address = [], summary = [], technical_skills = [], soft_skills = [],
      template = ''Professional Executive'', projects = [], certifications = [],
      languages = [], publications = [], volunteer = [],
      education_entries = [default_education],
      experience_entries = [default_experience],
      spelling_errors = None, generated_text = None\<rparr>"

text \<open>The add and remove buttons; the remove button exists only while more than one
  entry is there.\<close>

definition add_education :: "session \<Rightarrow> session" where
  "add_education s = s\<lparr>education_entries := education_entries s @ [default_education]\<rparr>"

definition remove_last_education :: "session \<Rightarrow> session" where
  "remove_last_education s =
     (if length (education_entries s) > 1
      then s\<lparr>education_entries := butlast (education_entries s)\<rparr> else s)"

definition add_experience :: "session \<Rightarrow> session" where
  "add_experience s = s\<lparr>experience_entries := experience_entries s @ [default_experience]\<rparr>"

definition remove_last_experience :: "session \<Rightarrow> session" where
  "remove_last_experience s =
     (if length (experience_entries s) > 1
      then s\<lparr>experience_entries := butlast (experience_entries s)\<rparr> else s)"

text \<open>Editing entry \<open>i\<close> through its widgets; widgets exist for the entries present.\<close>

definition edit_education :: "nat \<Rightarrow> education_entry \<Rightarrow> session \<Rightarrow> session" where
  "edit_education i e s =
     (if i < length (education_entries s)
      then s\<lparr>education_entries := (education_entries s)[i := e]\<rparr> else s)"

definition edit_experience :: "nat \<Rightarrow> experience_entry \<Rightarrow> session \<Rightarrow> session" where
  "edit_experience i e s =
     (if i < length (experience_entries s)
      then s\<lparr>experience_entries := (experience_entries s)[i := e]\<rparr> else s)"

text \<open>The spell-check button: one field, then all of them.\<close>

definition check_field ::
  "pylib \<Rightarrow> textblob \<Rightarrow> field \<Rightarrow> string
     \<Rightarrow> (field \<times> string \<times> string list) list \<times> ui_msg list" where
  "check_field L T key text =
     (if text = [] then ([], [])
      else (case check_spelling_st L T text of
              ((corrected, errors), msgs, calls) \<Rightarrow>
                (if errors \<noteq> [] then [(key, corrected, errors)] else [], msgs)))"

fun check_descriptions ::
  "pylib \<Rightarrow> textblob \<Rightarrow> nat \<Rightarrow> experience_entry list
     \<Rightarrow> (field \<times> string \<times> string list) list \<times> ui_msg list" where
  "check_descriptions L T i [] = ([], [])"
| "check_descriptions L T i (e # es) =
     (fst (check_field L T (ExpDesc i) (description e)) @ fst (check_descriptions L T (Suc i) es),
      snd (check_field L T (ExpDesc i) (description e)) @ snd (check_descriptions L T (Suc i) es))"

definition found_errors :: "pylib \<Rightarrow> textblob \<Rightarrow> session \<Rightarrow> (field \<times> string \<times> string list) list" where
  "found_errors L T s =
     fst (check_field L T Summary (summary s))
     @ fst (check_field L T Skills (technical_skills s))
     @ fst (check_descriptions L T 0 (experience_entries s))"

definition run_spell_check :: "pylib \<Rightarrow> textblob \<Rightarrow> session \<Rightarrow> session \<times> ui_msg list" where
  "run_spell_check L T s =
     (if found_errors L T s \<noteq> []
      then (s\<lparr>spelling_errors := Some (found_errors L T s)\<rparr>,
            snd (check_field L T Summary (summary s))
            @ snd (check_field L T Skills (technical_skills s))
            @ snd (check_descriptions L T 0 (experience_entries s))
            @ [StWarning ''Spelling errors found! See suggestions below.''])
      else (s,
            snd (check_field L T Summary (summary s))
            @ snd (check_field L T Skills (technical_skills s))
            @ snd (check_descriptions L T 0 (experience_entries s))
            @ [StSuccess ''No spelling errors found!'']))"

text \<open>The cached correction result of a field, if there is one.\<close>

definition cached :: "session \<Rightarrow> field \<Rightarrow> (string \<times> string list) option" where
  "cached s f = (case spelling_errors s of None \<Rightarrow> None | Some d \<Rightarrow> map_of d f)"


text \<open>
  The assignments of the button \<^verbatim>\<open>Apply corrections to {field}\<close> (lines 442-448),
  for the corrected text of the field. Assigning to an experience entry that is no
  longer there raises \<open>IndexError\<close>.
\<close>

definition assign_correction :: "session \<Rightarrow> field \<Rightarrow> string \<Rightarrow> exn + session" where
  "assign_correction s f corrected =
     (case f of
        Summary \<Rightarrow> Inr (s\<lparr>summary := corrected\<rparr>)
      | Skills \<Rightarrow> Inr (s\<lparr>technical_skills := corrected\<rparr>)
      | ExpDesc idx \<Rightarrow>
          (if idx < length (experience_entries s)
           then Inr (s\<lparr>experience_entries :=
                       (experience_entries s)
                         [idx := (experience_entries s ! idx)\<lparr>description := corrected\<rparr>]\<rparr>)
           else Inl (IndexError ''list index out of range'')))"

text \<open>
  \<^verbatim>\<open>st.rerun()\<close> (line 450): the script runs again from the top, with no button
  pressed, and reassigns every field from its widget. A widget called with the
  arguments of the run before returns the text it holds, and that text is what the run
  handling the click had assigned from it: the field of the session \<open>s\<close> as it was
  when the button was pressed. The free-text widgets (lines 239-270 and 393-417) have
  no \<^verbatim>\<open>value\<close> argument, so they give back the texts of \<open>s\<close>, whatever the handler
  assigned (\<open>s1\<close> is the session at \<^verbatim>\<open>st.rerun()\<close>). The entry widgets (lines
  275-376) are keyed and called with \<^verbatim>\<open>value=entry[...]\<close>; of these only a
  description widget of an experience entry can meet an argument that differs from
  the text it holds, the corrected text, and what it returns then is \<open>keyed_text\<close>.
  All other entry widgets return what they hold, which is what the entry has.
\<close>

definition keyed_widget :: "pylib \<Rightarrow> string \<Rightarrow> string \<Rightarrow> string" where
  "keyed_widget L held v = (if v = held then held else keyed_text L held v)"

definition rerun :: "pylib \<Rightarrow> session \<Rightarrow> session \<Rightarrow> session" where
  "rerun L s s1 =
     s1\<lparr>name := name s,
        email := email s,
        phone := phone s,
        linkedin := linkedin s,
        github := github s,
        portfolio := portfolio s,
        address := address s,
        summary := summary s,
        technical_skills := technical_skills s,
        soft_skills := soft_skills s,
        template := template s,
        experience_entries :=
          map2 (\<lambda>e e1. e1\<lparr>description := keyed_widget L (description e) (description e1)\<rparr>)
            (experience_entries s) (experience_entries s1),
        projects := projects s,
        certifications := certifications s,
        languages := languages s,
        publications := publications s,
        volunteer := volunteer s\<rparr>"

text \<open>
  The whole action of the button (lines 441-450). The button exists for the keys of
  the cache. When the assignment raises, the script stops there and nothing is rerun.
\<close>

definition apply_correction :: "pylib \<Rightarrow> session \<Rightarrow> field \<Rightarrow> exn + session" where
  "apply_correction L s f =
     (case cached s f of
        None \<Rightarrow> Inr s
      | Some (corrected, errors) \<Rightarrow>
          (case assign_correction s f corrected of
             Inl e \<Rightarrow> Inl e
           | Inr s1 \<Rightarrow> Inr (rerun L s s1)))"

text \<open>Truthiness of a JSON value, for \<^verbatim>\<open>if generated_text:\<close>.\<close>

fun truthy_json :: "json \<Rightarrow> bool" where
  "truthy_json JNull = False"
| "truthy_json (JBool b) = b"
| "truthy_json (JNum n) = (n \<noteq> 0)"
| "truthy_json (JStr s) = (s \<noteq> [])"
| "truthy_json (JList xs) = (xs \<noteq> [])"
| "truthy_json (JObj kvs) = (kvs \<noteq> [])"

definition run_generation ::
  "pylib \<Rightarrow> st_config \<Rightarrow> upstream \<Rightarrow> string \<Rightarrow> int \<Rightarrow> real \<Rightarrow> session \<Rightarrow> session" where
  "run_generation L cfg post prompt max_length temp s =
     (if prompt = [] then s
      else (case generate_text_st L cfg post prompt (Some max_length) (Some temp) of
              ((g, msgs), sent) \<Rightarrow> if truthy_json g then s\<lparr>generated_text := Some g\<rparr> else s))"

text \<open>The free-text widgets, which overwrite their field.\<close>

datatype text_field =
    Name | Email | Phone | Linkedin | Github | Portfolio | Address | SummaryText
  | TechnicalSkills | SoftSkills | Template | Projects | Certifications | Languages
  | Publications | Volunteer

fun edit_text :: "text_field \<Rightarrow> string \<Rightarrow> session \<Rightarrow> session" where
  "edit_text Name v s = s\<lparr>name := v\<rparr>"
| "edit_text Email v s = s\<lparr>email := v\<rparr>"
| "edit_text Phone v s = s\<lparr>phone := v\<rparr>"
| "edit_text Linkedin v s = s\<lparr>linkedin := v\<rparr>"
| "edit_text Github v s = s\<lparr>github := v\<rparr>"
| "edit_text Portfolio v s = s\<lparr>portfolio := v\<rparr>"
| "edit_text Address v s = s\<lparr>address := v\<rparr>"
| "edit_text SummaryText v s = s\<lparr>summary := v\<rparr>"
| "edit_text TechnicalSkills v s = s\<lparr>technical_skills := v\<rparr>"
| "edit_text SoftSkills v s = s\<lparr>soft_skills := v\<rparr>"
| "edit_text Template v s = s\<lparr>template := v\<rparr>"
| "edit_text Projects v s = s\<lparr>projects := v\<rparr>"
| "edit_text Certifications v s = s\<lparr>certifications := v\<rparr>"
| "edit_text Languages v s = s\<lparr>languages := v\<rparr>"
| "edit_text Publications v s = s\<lparr>publications := v\<rparr>"
| "edit_text Volunteer v s = s\<lparr>volunteer := v\<rparr>"

text \<open>
  One user action on the session. An action that raises leaves the session as it was;
  requesting the resume does not change it.
\<close>

datatype action =
    EditText text_field string
  | EditEducation nat education_entry
  | EditExperience nat experience_entry
  | AddEducation
  | RemoveLastEducation
  | AddExperience
  | RemoveLastExperience
  | RunSpellCheck
  | ApplyCorrection field
  | GenerateText string int real
  | GenerateResume

fun step ::
  "pylib \<Rightarrow> textblob \<Rightarrow> st_config \<Rightarrow> upstream \<Rightarrow> session \<Rightarrow> action \<Rightarrow> session" where
  "step L T cfg post s (EditText f v) = edit_text f v s"
| "step L T cfg post s (EditEducation i e) = edit_education i e s"
| "step L T cfg post s (EditExperience i e) = edit_experience i e s"
| "step L T cfg post s AddEducation = add_education s"
| "step L T cfg post s RemoveLastEducation = remove_last_education s"
| "step L T cfg post s AddExperience = add_experience s"
| "step L T cfg post s RemoveLastExperience = remove_last_experience s"
| "step L T cfg post s RunSpellCheck = fst (run_spell_check L T s)"
| "step L T cfg post s (ApplyCorrection f) =
     (case apply_correction L s f of Inl e \<Rightarrow> s | Inr s' \<Rightarrow> s')"
| "step L T cfg post s (GenerateText prompt max_length temp) =
     run_generation L cfg post prompt max_length temp s"
| "step L T cfg post s GenerateResume = s"

text \<open>The sessions a user can reach from the initial one.\<close>

inductive reachable ::
  "pylib \<Rightarrow> textblob \<Rightarrow> st_config \<Rightarrow> upstream \<Rightarrow> session \<Rightarrow> bool"
  for L :: pylib and T :: textblob and cfg :: st_config and post :: upstream where
  reachable_init: "reachable L T cfg post init_session"
| reachable_step: "reachable L T cfg post s \<Longrightarrow> reachable L T cfg post (step L T cfg post s a)"

text \<open>The button \<^verbatim>\<open>Generate Professional Resume\<close>.\<close>

definition replace_spaces :: "string \<Rightarrow> string" where
  "replace_spaces s = map (\<lambda>c. if c = CHR '' '' then CHR ''_'' else c) s"

definition resume_data_of :: "session \<Rightarrow> resume_data" where
  "resume_data_of s =
     \<lparr>data_name = name s,
      data_contact = email s @ '' | '' @ phone s @ '' | '' @ address s,
      data_summary = summary s,
      data_education = education_entries s,
      data_experience = experience_entries s,
      data_skills_technical = technical_skills s,
      data_skills_soft = soft_skills s,
      data_projects = projects s,
      data_certifications = certifications s,
      data_languages = languages s,
      data_publications = publications s,
      data_volunteer = volunteer s\<rparr>"

text \<open>
  What the handler shows, and the records it handed to \<^verbatim>\<open>create_pdf\<close>, in order.
\<close>

definition generate_resume ::
  "fpdf \<Rightarrow> pylib \<Rightarrow> st_config \<Rightarrow> session \<Rightarrow> ui_msg list \<times> resume_data list" where
  "generate_resume F L cfg s =
     (if name s = [] \<or> email s = [] \<or> summary s = []
      then ([StError ''Please fill in at least the required fields (marked with *)''], [])
      else
        (case create_pdf_st F L cfg (resume_data_of s) of
           (Some bytes, msgs) \<Rightarrow>
             (if bytes \<noteq> []
              then (msgs @ [DownloadButton bytes (replace_spaces (name s) @ ''_Resume.pdf''),
                            StSuccess ''Resume generated successfully!''],
                    [resume_data_of s])
              else (msgs @ [StError ''Failed to generate PDF. Please try again.''],
                    [resume_data_of s]))
         | (None, msgs) \<Rightarrow>
             (msgs @ [StError ''Failed to generate PDF. Please try again.''],
              [resume_data_of s])))"

section \<open>Sample collaborators and inputs\<close>

text \<open>
  Concrete stand-ins for the external parts, used to run the definitions on explicit
  inputs: a library that parses the few strings the examples use, a loaded
  configuration with ceiling 500, and three upstream behaviours.
\<close>

definition sample_lib :: pylib where
  "sample_lib =
     \<lparr>py_int = (\<lambda>s. if s = ''20'' then Inr 20 else Inl (ValueError ''invalid literal for int()'')),
      py_float = (\<lambda>s. if s = ''0.7'' then Inr (7 / 10)
                       else Inl (ValueError ''could not convert string to float'')),
      str_http = (\<lambda>c d. show_int c @ '': '' @ d),
      keyed_text = (\<lambda>held v. v)\<rparr>"

definition sample_cfg :: svc_config where
  "sample_cfg =
     \<lparr>HF_API_KEY = Some ''hf_key'', MODEL_NAME = Some ''gpt2'', API_TIMEOUT = 30,
      MAX_TEXT_LENGTH = 500\<rparr>"

definition env_only_key :: environ where
  "env_only_key = [''HF_API_KEY'' \<mapsto> ''hf_key'']"

definition cfg_only_key :: svc_config where
  "cfg_only_key =
     \<lparr>HF_API_KEY = Some ''hf_key'', MODEL_NAME = None, API_TIMEOUT = 30,
      MAX_TEXT_LENGTH = 500\<rparr>"

definition env_with_temperature :: environ where
  "env_with_temperature = [''HF_API_KEY'' \<mapsto> ''hf_key'', ''DEFAULT_TEMPERATURE'' \<mapsto> ''0.7'']"

definition upstream_down :: upstream where
  "upstream_down req = Inl (RequestException ''connection refused'')"

definition response_503 :: response where
  "response_503 =
     \<lparr>status_code = 503, headers = [''estimated_time'' \<mapsto> ''20''],
      http_error_text = ''503 Server Error'', json_body = Inr (JObj [])\<rparr>"

definition upstream_503 :: upstream where
  "upstream_503 req = Inr response_503"

definition response_ok :: response where
  "response_ok =
     \<lparr>status_code = 200, headers = Map.empty, http_error_text = [],
      json_body = Inr (JList [JObj [(''generated_text'', JStr ''Seasoned engineer.'')]])\<rparr>"

definition upstream_ok :: upstream where
  "upstream_ok req = Inr response_ok"

definition sample_st_cfg :: st_config where
  "sample_st_cfg =
     \<lparr>HF_API_KEY_st = Some ''hf_key'', DEFAULT_TEMPLATE = ''Professional'', PDF_FONT = ''Arial'',
      PDF_FONT_SIZE = 12, MAX_TEXT_LENGTH_st = 500, MODEL_NAME_st = ''google/flan-t5-large'',
      API_TIMEOUT_st = 30\<rparr>"

definition sample_blob :: textblob where
  "sample_blob =
     \<lparr>correct = (\<lambda>t. if t = ''teh cat'' then Inr ''the cat'' else Inr t),
      words = (\<lambda>t. if t = ''teh cat'' then Inr [''teh'', ''cat'']
                    else if t = ''the cat'' then Inr [''the'', ''cat''] else Inr [t])\<rparr>"

definition sample_fpdf :: fpdf where
  "sample_fpdf ops = Inr ''%PDF-1.3''"

definition sample_data :: resume_data where
  "sample_data =
     \<lparr>data_name = ''Jane Doe'', data_contact = ''j@x.com |  | '', data_summary = ''Engineer.'',
      data_education = [default_education], data_experience = [default_experience],
      data_skills_technical = ''Python'', data_skills_soft = ''Teamwork'',
      data_projects = ''Compiler'', data_certifications = [], data_languages = [],
      data_publications = [], data_volunteer = []\<rparr>"

definition sample_session :: session where
  "sample_session =
     init_session\<lparr>name := ''Jane Doe'', email := ''j@x.com'', summary := ''Engineer.'',
                  technical_skills := ''Python'', soft_skills := ''Teamwork'',
                  projects := ''Compiler''\<rparr>"

definition sample_input :: resume_input where
  "sample_input =
     \<lparr>input_name = ''Jane Doe'', input_summary = ''Engineer.'', input_experiences = [],
      input_education = [], input_skills = [''Python'']\<rparr>"



section \<open>Verified properties\<close>

subsection \<open>Generation: what is sent upstream\<close>

lemma sent_svc_cases:
  "snd (generate_text_svc L cfg env post prompt max_length temp) = [] \<or>
   (\<exists>t. effective_temperature_svc L env temp = Inr t \<and>
        snd (generate_text_svc L cfg env post prompt max_length temp)
          = [request_svc cfg prompt max_length t])"
  by (simp add: generate_text_svc_def generate_text_body_svc_def split: sum.splits)

lemma max_new_tokens_request_svc:
  "max_new_tokens (parameters (request_svc cfg prompt max_length t))
     = effective_max_length_svc cfg max_length"
  by (simp add: request_svc_def)

lemma temperature_request_svc:
  "temperature (parameters (request_svc cfg prompt max_length t)) = t"
  by (simp add: request_svc_def)

lemma request_svc_zero: "request_svc cfg prompt (Some 0) t = request_svc cfg prompt None t"
  by (simp add: request_svc_def effective_max_length_svc_def)

lemma sample_sent_down:
  "snd (generate_text_svc sample_lib sample_cfg env_only_key upstream_down ''hi'' ml (Some (7 / 10)))
     = [request_svc sample_cfg ''hi'' ml (7 / 10)]"
  by (simp add: generate_text_svc_def generate_text_body_svc_def effective_temperature_svc_def
      sample_cfg_def truthy_str_def upstream_down_def)

text \<open>
  C10. At the generation interface of the request service a requested
  \<open>max_length\<close> of 0 and a requested temperature of 0.0 are each treated as if
  absent: the call behaves exactly as with the argument left out, every request sent
  for \<open>max_length = 0\<close> carries the full ceiling \<open>MAX_TEXT_LENGTH\<close>, and when the
  default temperature is configured every request sent for temperature 0.0 carries
  that default.
\<close>

theorem zero_arguments_treated_as_absent:
  "generate_text_svc L cfg env post prompt (Some 0) temp
     = generate_text_svc L cfg env post prompt None temp
   \<and> generate_text_svc L cfg env post prompt max_length (Some 0)
     = generate_text_svc L cfg env post prompt max_length None
   \<and> (\<forall>req \<in> set (snd (generate_text_svc L cfg env post prompt (Some 0) temp)).
        max_new_tokens (parameters req) = MAX_TEXT_LENGTH cfg)
   \<and> (\<forall>d. getenv_float L env ''DEFAULT_TEMPERATURE'' = Inr d \<longrightarrow>
        (\<forall>req \<in> set (snd (generate_text_svc L cfg env post prompt max_length (Some 0))).
           temperature (parameters req) = d))"
proof (intro conjI allI impI ballI)
  show "generate_text_svc L cfg env post prompt (Some 0) temp
     = generate_text_svc L cfg env post prompt None temp"
    by (simp add: generate_text_svc_def generate_text_body_svc_def request_svc_zero
        split: sum.splits)
  show "generate_text_svc L cfg env post prompt max_length (Some 0)
     = generate_text_svc L cfg env post prompt max_length None"
    by (simp add: generate_text_svc_def generate_text_body_svc_def effective_temperature_svc_def)
next
  fix req
  assume "req \<in> set (snd (generate_text_svc L cfg env post prompt (Some 0) temp))"
  with sent_svc_cases [of L cfg env post prompt "Some 0" temp]
  obtain t where "req = request_svc cfg prompt (Some 0) t" by auto
  then show "max_new_tokens (parameters req) = MAX_TEXT_LENGTH cfg"
    by (simp add: max_new_tokens_request_svc effective_max_length_svc_def)
next
  fix d req
  assume d: "getenv_float L env ''DEFAULT_TEMPERATURE'' = Inr d"
    and "req \<in> set (snd (generate_text_svc L cfg env post prompt max_length (Some 0)))"
  with sent_svc_cases [of L cfg env post prompt max_length "Some 0"]
  obtain t where t: "effective_temperature_svc L env (Some 0) = Inr t"
    and req: "req = request_svc cfg prompt max_length t" by auto
  from t d have "t = d" by (simp add: effective_temperature_svc_def)
  with req show "temperature (parameters req) = d"
    by (simp add: temperature_request_svc)
qed

theorem zero_arguments_treated_as_absent_witness:
  "getenv_float sample_lib env_with_temperature ''DEFAULT_TEMPERATURE'' = Inr (7 / 10)
   \<and> snd (generate_text_svc sample_lib sample_cfg env_with_temperature upstream_down ''hi''
            (Some 0) (Some 0))
       = [request_svc sample_cfg ''hi'' (Some 0) (7 / 10)]
   \<and> max_new_tokens (parameters (request_svc sample_cfg ''hi'' (Some 0) (7 / 10))) = 500
   \<and> temperature (parameters (request_svc sample_cfg ''hi'' (Some 0) (7 / 10))) = 7 / 10"
proof -
  have d: "getenv_float sample_lib env_with_temperature ''DEFAULT_TEMPERATURE'' = Inr (7 / 10)"
    by (simp add: getenv_float_def sample_lib_def env_with_temperature_def)
  have s: "snd (generate_text_svc sample_lib sample_cfg env_with_temperature upstream_down ''hi''
            (Some 0) (Some 0)) = [request_svc sample_cfg ''hi'' (Some 0) (7 / 10)]"
    by (simp add: generate_text_svc_def generate_text_body_svc_def effective_temperature_svc_def
        d sample_cfg_def truthy_str_def upstream_down_def)
  note z = zero_arguments_treated_as_absent
         [of sample_lib sample_cfg env_with_temperature upstream_down "''hi''" "Some 0" "Some 0"]
  from z have a: "\<forall>req \<in> set (snd (generate_text_svc sample_lib sample_cfg env_with_temperature
        upstream_down ''hi'' (Some 0) (Some 0))).
      max_new_tokens (parameters req) = MAX_TEXT_LENGTH sample_cfg"
    by blast
  from z d have b: "\<forall>req \<in> set (snd (generate_text_svc sample_lib sample_cfg env_with_temperature
        upstream_down ''hi'' (Some 0) (Some 0))).
      temperature (parameters req) = 7 / 10"
    by blast
  from a b s
  have "max_new_tokens (parameters (request_svc sample_cfg ''hi'' (Some 0) (7 / 10)))
          = MAX_TEXT_LENGTH sample_cfg
        \<and> temperature (parameters (request_svc sample_cfg ''hi'' (Some 0) (7 / 10))) = 7 / 10"
    by simp
  with d s show ?thesis by (simp add: sample_cfg_def)
qed

lemma sent_st_cases:
  "snd (generate_text_st L cfg post prompt max_length temp) = [] \<or>
   snd (generate_text_st L cfg post prompt max_length temp)
     = [request_st cfg prompt max_length temp]"
  by (simp add: generate_text_st_def split: sum.splits)

text \<open>
  C1 (as amended). Every request that a call of the generation operation sends
  upstream carries as \<open>max_new_tokens\<close> the minimum of the ceiling and the effective
  request, and so never exceeds the ceiling. In the request service the effective
  request is the requested value when one is given and is not 0, and the ceiling
  itself (the service default) otherwise; in the interactive form it is the requested
  value, or 200 when the argument is omitted.
\<close>

theorem max_length_capped_by_ceiling:
  "(\<forall>req \<in> set (snd (generate_text_svc L cfg env post prompt max_length temp)).
      max_new_tokens (parameters req)
        = min (case max_length of
                 None \<Rightarrow> MAX_TEXT_LENGTH cfg
               | Some n \<Rightarrow> if n = 0 then MAX_TEXT_LENGTH cfg else n)
              (MAX_TEXT_LENGTH cfg)
      \<and> max_new_tokens (parameters req) \<le> MAX_TEXT_LENGTH cfg)
   \<and> (\<forall>req \<in> set (snd (generate_text_st L cfg' post prompt max_length temp)).
      max_new_tokens (parameters req)
        = min (case max_length of None \<Rightarrow> 200 | Some n \<Rightarrow> n) (MAX_TEXT_LENGTH_st cfg')
      \<and> max_new_tokens (parameters req) \<le> MAX_TEXT_LENGTH_st cfg')"
proof (rule conjI)
  show "\<forall>req \<in> set (snd (generate_text_svc L cfg env post prompt max_length temp)).
      max_new_tokens (parameters req)
        = min (case max_length of
                 None \<Rightarrow> MAX_TEXT_LENGTH cfg
               | Some n \<Rightarrow> if n = 0 then MAX_TEXT_LENGTH cfg else n)
              (MAX_TEXT_LENGTH cfg)
      \<and> max_new_tokens (parameters req) \<le> MAX_TEXT_LENGTH cfg"
  proof (rule ballI)
    fix req
    assume "req \<in> set (snd (generate_text_svc L cfg env post prompt max_length temp))"
    with sent_svc_cases [of L cfg env post prompt max_length temp]
    obtain t where "req = request_svc cfg prompt max_length t" by auto
    then show "max_new_tokens (parameters req)
        = min (case max_length of
                 None \<Rightarrow> MAX_TEXT_LENGTH cfg
               | Some n \<Rightarrow> if n = 0 then MAX_TEXT_LENGTH cfg else n)
              (MAX_TEXT_LENGTH cfg)
      \<and> max_new_tokens (parameters req) \<le> MAX_TEXT_LENGTH cfg"
      by (simp add: max_new_tokens_request_svc effective_max_length_svc_def)
  qed
next
  show "\<forall>req \<in> set (snd (generate_text_st L cfg' post prompt max_length temp)).
      max_new_tokens (parameters req)
        = min (case max_length of None \<Rightarrow> 200 | Some n \<Rightarrow> n) (MAX_TEXT_LENGTH_st cfg')
      \<and> max_new_tokens (parameters req) \<le> MAX_TEXT_LENGTH_st cfg'"
  proof (rule ballI)
    fix req
    assume "req \<in> set (snd (generate_text_st L cfg' post prompt max_length temp))"
    with sent_st_cases [of L cfg' post prompt max_length temp]
    have "req = request_st cfg' prompt max_length temp" by auto
    then show "max_new_tokens (parameters req)
        = min (case max_length of None \<Rightarrow> 200 | Some n \<Rightarrow> n) (MAX_TEXT_LENGTH_st cfg')
      \<and> max_new_tokens (parameters req) \<le> MAX_TEXT_LENGTH_st cfg'"
      by (simp add: request_st_def effective_max_length_st_def)
  qed
qed

theorem max_length_capped_by_ceiling_witness:
  "snd (generate_text_svc sample_lib sample_cfg env_only_key upstream_down ''hi'' (Some 10000)
          (Some (7 / 10)))
     = [request_svc sample_cfg ''hi'' (Some 10000) (7 / 10)]
   \<and> max_new_tokens (parameters (request_svc sample_cfg ''hi'' (Some 10000) (7 / 10))) = 500"
proof -
  note s = sample_sent_down [of "Some 10000"]
  from max_length_capped_by_ceiling
         [of sample_lib sample_cfg env_only_key upstream_down "''hi''" "Some 10000" "Some (7 / 10)"]
  have "\<forall>req \<in> set (snd (generate_text_svc sample_lib sample_cfg env_only_key upstream_down
          ''hi'' (Some 10000) (Some (7 / 10)))).
      max_new_tokens (parameters req)
        = min (case Some 10000 of
                 None \<Rightarrow> MAX_TEXT_LENGTH sample_cfg
               | Some n \<Rightarrow> if n = 0 then MAX_TEXT_LENGTH sample_cfg else n)
              (MAX_TEXT_LENGTH sample_cfg)"
    by blast
  with s have "max_new_tokens (parameters (request_svc sample_cfg ''hi'' (Some 10000) (7 / 10)))
      = min 10000 (MAX_TEXT_LENGTH sample_cfg)"
    by simp
  with s show ?thesis by (simp add: sample_cfg_def)
qed

text \<open>
  C1 as stated fails in the request service for a requested \<open>max_length\<close> of 0 under
  ceiling 500: the minimum of the requested value and the ceiling is 0, and the
  request sent carries 500.
\<close>

theorem max_length_zero_counterexample:
  "snd (generate_text_svc sample_lib sample_cfg env_only_key upstream_down ''hi'' (Some 0)
          (Some (7 / 10)))
     = [request_svc sample_cfg ''hi'' (Some 0) (7 / 10)]
   \<and> max_new_tokens (parameters (request_svc sample_cfg ''hi'' (Some 0) (7 / 10))) = 500
   \<and> min (0::int) (MAX_TEXT_LENGTH sample_cfg) = 0"
  using sample_sent_down [of "Some 0"]
  by (simp add: max_new_tokens_request_svc effective_max_length_svc_def sample_cfg_def)

subsection \<open>Generation: the status the caller receives\<close>

text \<open>
  C2. The upstream answers 503 with \<open>estimated_time\<close> 20. The body of
  \<^verbatim>\<open>generate_text\<close> raises the not-ready exception with status 503, one request
  having been sent; the catch-all \<^verbatim>\<open>except Exception\<close> of the same function
  catches it and raises status 500 in its place, which is what the endpoint returns.
\<close>

theorem not_ready_reported_as_500:
  "generate_text_body_svc sample_lib sample_cfg env_only_key upstream_503 ''hi'' None
       (Some (7 / 10))
     = (Inl (HTTPException 503 (''Model loading, please wait '' @ show_int 20 @ '' seconds'')),
        [request_svc sample_cfg ''hi'' None (7 / 10)])
   \<and> fst (generate_text_svc sample_lib sample_cfg env_only_key upstream_503 ''hi'' None
            (Some (7 / 10)))
     = Inl (HTTPException 500
              (str_http sample_lib 503
                 (''Model loading, please wait '' @ show_int 20 @ '' seconds'')))
   \<and> text_generation_status sample_lib sample_cfg env_only_key upstream_503 ''hi'' None
        (Some (7 / 10)) = 500"
proof -
  have w: "wait_time_of sample_lib response_503 = Inr 20"
    by (simp add: wait_time_of_def response_503_def sample_lib_def)
  have r: "on_response_svc sample_lib ''hi'' response_503
             = Inl (HTTPException 503 (''Model loading, please wait '' @ show_int 20 @ '' seconds''))"
    by (simp add: on_response_svc_def w) (simp add: response_503_def)
  have b: "generate_text_body_svc sample_lib sample_cfg env_only_key upstream_503 ''hi'' None
       (Some (7 / 10))
     = (Inl (HTTPException 503 (''Model loading, please wait '' @ show_int 20 @ '' seconds'')),
        [request_svc sample_cfg ''hi'' None (7 / 10)])"
    by (simp add: generate_text_body_svc_def effective_temperature_svc_def upstream_503_def r)
       (simp add: sample_cfg_def truthy_str_def)
  show ?thesis
    by (simp add: b generate_text_svc_def text_generation_status_def)
qed

text \<open>
  C9. Only the credential is set. The module configuration loads with its defaults,
  but \<^verbatim>\<open>DEFAULT_TEMPERATURE\<close> has none: a generation call that leaves the
  temperature out fails with status 500 before anything is sent upstream, whatever
  the upstream would have answered.
\<close>

theorem missing_default_temperature_fails:
  "load_config_svc sample_lib env_only_key = Inr cfg_only_key
   \<and> generate_text_svc sample_lib cfg_only_key env_only_key upstream_ok ''hi'' None None
     = (Inl (HTTPException 500
               ''float() argument must be a string or a real number, not NoneType''), [])
   \<and> text_generation_status sample_lib cfg_only_key env_only_key upstream_ok ''hi'' None None
     = 500"
proof -
  have c: "load_config_svc sample_lib env_only_key = Inr cfg_only_key"
    by (simp add: load_config_svc_def getenv_int_def env_only_key_def cfg_only_key_def)
  have t: "effective_temperature_svc sample_lib env_only_key None
             = Inl (TypeError ''float() argument must be a string or a real number, not NoneType'')"
    by (simp add: effective_temperature_svc_def getenv_float_def env_only_key_def)
  have g: "generate_text_svc sample_lib cfg_only_key env_only_key upstream_ok ''hi'' None None
     = (Inl (HTTPException 500
               ''float() argument must be a string or a real number, not NoneType''), [])"
    by (simp add: generate_text_svc_def generate_text_body_svc_def t)
       (simp add: cfg_only_key_def truthy_str_def)
  show ?thesis
    by (simp add: c g text_generation_status_def)
qed

subsection \<open>Spelling correction\<close>

lemma strip_Nil_iff: "strip s = [] \<longleftrightarrow> (\<forall>c \<in> set s. isspace c)"
proof
  assume "strip s = []"
  then have a: "\<forall>c \<in> set (dropWhile isspace s). isspace c"
    by (simp add: strip_def dropWhile_eq_Nil_conv)
  show "\<forall>c \<in> set s. isspace c"
  proof (cases "dropWhile isspace s")
    case Nil
    then show ?thesis by (simp add: dropWhile_eq_Nil_conv)
  next
    case (Cons x xs)
    with hd_dropWhile [of isspace s] have "\<not> isspace x" by simp
    moreover from a Cons have "isspace x" by simp
    ultimately show ?thesis by simp
  qed
next
  assume "\<forall>c \<in> set s. isspace c"
  then show "strip s = []" by (auto simp: strip_def dest: set_dropWhileD)
qed

lemma misspelled_loop_positional:
  assumes c: "words T corrected = Inr c"
  shows "fst (misspelled_loop T corrected i ws) = Inr (positional_diff ws (drop i c))"
proof (induction ws arbitrary: i)
  case Nil
  show ?case by (simp add: positional_diff_def)
next
  case (Cons w ws)
  obtain res cs where m: "misspelled_loop T corrected (Suc i) ws = (res, cs)"
    by (cases "misspelled_loop T corrected (Suc i) ws")
  with Cons.IH [of "Suc i"] have res: "res = Inr (positional_diff ws (drop (Suc i) c))"
    by simp
  show ?case
  proof (cases "i < length c")
    case True
    then have d: "drop i c = c ! i # drop (Suc i) c"
      by (simp add: Cons_nth_drop_Suc)
    have "positional_diff (w # ws) (drop i c)
            = (if w \<noteq> c ! i then w # positional_diff ws (drop (Suc i) c)
               else positional_diff ws (drop (Suc i) c))"
      by (simp add: d positional_diff_def)
    with True show ?thesis by (simp add: c m res)
  next
    case False
    then have "positional_diff (w # ws) (drop i c) = []"
      and "positional_diff ws (drop (Suc i) c) = []"
      by (simp_all add: positional_diff_def)
    with False show ?thesis by (simp add: c m res)
  qed
qed

lemma correct_and_compare_positional:
  assumes "correct T text = Inr corrected"
    and "words T text = Inr ow"
    and cw: "words T corrected = Inr cw"
  shows "fst (correct_and_compare T text) = Inr (corrected, positional_diff ow cw)"
proof -
  obtain res cs where m: "misspelled_loop T corrected 0 ow = (res, cs)"
    by (cases "misspelled_loop T corrected 0 ow")
  with misspelled_loop_positional [OF cw, of 0 ow] have "res = Inr (positional_diff ow cw)"
    by simp
  with m assms show ?thesis by (simp add: correct_and_compare_def)
qed

lemma not_isspace_t: "\<not> isspace CHR ''t''"
  by (simp add: isspace_def)

lemma isspace_blank: "isspace CHR '' ''"
  by (simp add: isspace_def)

text \<open>
  C5. For an input that is not blank and that the library corrects and tokenises, the
  misspelled words which the correction operation returns are those of the positional
  comparison of the original tokenisation with the corrected one: the original token at
  every position present in both where the tokens differ, positions beyond the shorter
  tokenisation being ignored. This holds in both files. (The blank input is C6.)
\<close>

theorem misspelled_words_positional:
  assumes "\<not> (\<forall>c \<in> set text. isspace c)"
    and "correct T text = Inr corrected"
    and "words T text = Inr ow"
    and "words T corrected = Inr cw"
  shows "fst (check_spelling_svc L T text) = Inr (corrected, positional_diff ow cw)
         \<and> fst (check_spelling_st L T text) = (corrected, positional_diff ow cw)"
proof -
  from assms(1) have n: "strip text \<noteq> []" by (simp add: strip_Nil_iff)
  obtain cs where "correct_and_compare T text = (Inr (corrected, positional_diff ow cw), cs)"
    using correct_and_compare_positional [OF assms(2) assms(3) assms(4)]
    by (cases "correct_and_compare T text") simp
  with n show ?thesis by (simp add: check_spelling_svc_def check_spelling_st_def)
qed

theorem misspelled_words_positional_witness:
  "fst (check_spelling_svc sample_lib sample_blob ''teh cat'') = Inr (''the cat'', [''teh''])
   \<and> fst (check_spelling_st sample_lib sample_blob ''teh cat'') = (''the cat'', [''teh''])"
proof -
  have a: "\<not> (\<forall>c \<in> set ''teh cat''. isspace c)" using not_isspace_t by simp
  have b: "correct sample_blob ''teh cat'' = Inr ''the cat''" by (simp add: sample_blob_def)
  have c: "words sample_blob ''teh cat'' = Inr [''teh'', ''cat'']" by (simp add: sample_blob_def)
  have d: "words sample_blob ''the cat'' = Inr [''the'', ''cat'']" by (simp add: sample_blob_def)
  have e: "positional_diff [''teh'', ''cat''] [''the'', ''cat''] = [''teh'']"
    by (simp add: positional_diff_def)
  from misspelled_words_positional [OF a b c d, of sample_lib] show ?thesis by (simp add: e)
qed

text \<open>
  C6. For an input that is empty or consists of whitespace only, the correction
  operation returns the input unchanged with no misspelled words, shows nothing, and
  makes no call to the spelling library. This holds in both files.
\<close>

theorem blank_input_is_returned_unchanged:
  assumes "\<forall>c \<in> set text. isspace c"
  shows "check_spelling_svc L T text = (Inr (text, []), [])
         \<and> check_spelling_st L T text = ((text, []), [], [])"
proof -
  from assms have "strip text = []" by (simp add: strip_Nil_iff)
  then show ?thesis by (simp add: check_spelling_svc_def check_spelling_st_def)
qed

theorem blank_input_is_returned_unchanged_witness:
  "check_spelling_svc sample_lib sample_blob ''  '' = (Inr (''  '', []), [])
   \<and> check_spelling_st sample_lib sample_blob ''  '' = ((''  '', []), [], [])"
proof -
  have "\<forall>c \<in> set ''  ''. isspace c" using isspace_blank by simp
  from blank_input_is_returned_unchanged [OF this] show ?thesis .
qed

subsection \<open>Rendering\<close>

lemma capitalize_sections:
  "capitalize ''education'' = ''Education''"
  "capitalize ''experience'' = ''Experience''"
  "capitalize ''experiences'' = ''Experiences''"
  "capitalize ''skills'' = ''Skills''"
  "capitalize ''additional'' = ''Additional''"
  by code_simp+

lemma bold_text_heading: "bold_text b (heading_ops t @ rest) = t # bold_text False rest"
  by (simp add: heading_ops_def)

lemma bold_text_education:
  "bold_text False (concat (map education_ops es) @ rest) = bold_text False rest"
  by (induction es) (simp_all add: education_ops_def)

lemma bold_text_experience:
  "bold_text False (concat (map experience_ops es) @ rest) = bold_text False rest"
  by (induction es) (simp_all add: experience_ops_def)

lemma bold_text_items:
  "bold_text False (map (\<lambda>item. MultiCell w h (f item)) items @ rest) = bold_text False rest"
  by (induction items) simp_all

lemma bold_text_section_svc:
  "bold_text False (section_ops_svc section items @ rest) = capitalize section # bold_text False rest"
  by (simp add: section_ops_svc_def bold_text_heading bold_text_items)

lemma bold_text_pdf_ops_st:
  "bold_text False (pdf_ops_st cfg d) = [''Professional Summary'', ''Education'', ''Experience'']"
proof -
  have "bold_text False (concat (map experience_ops (data_experience d))) = []"
    using bold_text_experience [of "data_experience d" "[]"] by simp
  then show ?thesis
    by (simp add: pdf_ops_st_def bold_text_heading bold_text_education capitalize_sections
        del: capitalize.simps)
qed

lemma bold_text_pdf_ops_svc:
  "bold_text False (pdf_ops_svc font fs ts d) = [''Experiences'', ''Education'', ''Skills'']"
proof -
  have "bold_text False (section_ops_svc ''skills'' (input_skills d)) = [capitalize ''skills'']"
    using bold_text_section_svc [of "''skills''" "input_skills d" "[]"]
    by (simp del: capitalize.simps)
  then show ?thesis
    by (simp add: pdf_ops_svc_def bold_text_section_svc capitalize_sections
        del: capitalize.simps)
qed

text \<open>
  C4. A session with the required fields, the technical skill Python, the soft
  skill Teamwork and the project Compiler. Requesting the resume hands the renderer a
  record that holds all of them, and the renderer draws the name, the contact line, the
  summary heading and summary, and the education and experience blocks, and nothing
  else: the skills and the additional section are neither drawn nor given a heading.
  The renderer of the request service does draw a \<open>Skills\<close> block.
\<close>

theorem skills_and_additional_not_rendered:
  "snd (generate_resume sample_fpdf sample_lib sample_st_cfg sample_session) = [sample_data]
   \<and> data_skills_technical sample_data = ''Python''
   \<and> data_projects sample_data = ''Compiler''
   \<and> drawn_text (pdf_ops_st sample_st_cfg sample_data)
       = [''Jane Doe'', ''j@x.com |  | '', ''Professional Summary'', ''Engineer.'',
          ''Education'', '' |  | '', ''Experience'', '' |  |  years'']
   \<and> bold_text False (pdf_ops_st sample_st_cfg sample_data)
       = [''Professional Summary'', ''Education'', ''Experience'']
   \<and> bold_text False (pdf_ops_svc ''Arial'' 12 24 sample_input)
       = [''Experiences'', ''Education'', ''Skills'']"
proof -
  have d: "resume_data_of sample_session = sample_data"
    by (simp add: resume_data_of_def sample_session_def init_session_def sample_data_def)
  have n: "name sample_session \<noteq> [] \<and> email sample_session \<noteq> [] \<and> summary sample_session \<noteq> []"
    by (simp add: sample_session_def init_session_def)
  have g: "snd (generate_resume sample_fpdf sample_lib sample_st_cfg sample_session)
             = [resume_data_of sample_session]"
    using n by (simp add: generate_resume_def create_pdf_st_def sample_fpdf_def)
  have k: "data_skills_technical sample_data = ''Python''"
    and j: "data_projects sample_data = ''Compiler''"
    by (simp_all add: sample_data_def)
  have t: "drawn_text (pdf_ops_st sample_st_cfg sample_data)
       = [''Jane Doe'', ''j@x.com |  | '', ''Professional Summary'', ''Engineer.'',
          ''Education'', '' |  | '', ''Experience'', '' |  |  years'']"
    by (simp add: pdf_ops_st_def heading_ops_def education_ops_def experience_ops_def
        sample_data_def default_education_def default_experience_def capitalize_sections
        del: capitalize.simps)
  from g d k j t bold_text_pdf_ops_st [of sample_st_cfg sample_data]
    bold_text_pdf_ops_svc [of "''Arial''" 12 24 sample_input]
  show ?thesis by simp
qed

subsection \<open>The interactive form controller\<close>





text \<open>
  The rerun gives the summary back to its widget: after the action the summary is the
  text it was before, not the corrected one.
\<close>

lemma applied_summary_lost_on_rerun:
  "summary (step L T cfg post s (ApplyCorrection Summary)) = summary s"
  by (simp add: apply_correction_def assign_correction_def rerun_def split: option.splits)




lemma edit_text_entries:
  "education_entries (edit_text f v s) = education_entries s"
  "experience_entries (edit_text f v s) = experience_entries s"
  by (cases f; simp)+

lemma assign_correction_entries:
  assumes "assign_correction s f corrected = Inr s1"
  shows "education_entries s1 = education_entries s"
    and "length (experience_entries s1) = length (experience_entries s)"
  using assms by (cases f; auto simp: assign_correction_def split: if_splits)+

lemma rerun_entries:
  "education_entries (rerun L s s1) = education_entries s1"
  "length (experience_entries (rerun L s s1))
     = min (length (experience_entries s)) (length (experience_entries s1))"
  by (simp_all add: rerun_def)

lemma apply_correction_entries:
  assumes "apply_correction L s f = Inr s'"
  shows "education_entries s' = education_entries s"
    and "length (experience_entries s') = length (experience_entries s)"
proof -
  have "education_entries s' = education_entries s
        \<and> length (experience_entries s') = length (experience_entries s)"
  proof (cases "cached s f")
    case None
    with assms show ?thesis by (simp add: apply_correction_def)
  next
    case (Some ce)
    obtain corrected errors where ce: "ce = (corrected, errors)" by (cases ce)
    with assms Some obtain s1 where a: "assign_correction s f corrected = Inr s1"
      and r: "s' = rerun L s s1"
      by (auto simp: apply_correction_def split: sum.splits)
    from r assign_correction_entries [OF a] show ?thesis by (simp add: rerun_entries)
  qed
  then show "education_entries s' = education_entries s"
    and "length (experience_entries s') = length (experience_entries s)"
    by simp_all
qed

lemma run_spell_check_entries:
  "education_entries (fst (run_spell_check L T s)) = education_entries s"
  "experience_entries (fst (run_spell_check L T s)) = experience_entries s"
  by (simp_all add: run_spell_check_def)

lemma run_generation_entries:
  "education_entries (run_generation L cfg post prompt m t s) = education_entries s"
  "experience_entries (run_generation L cfg post prompt m t s) = experience_entries s"
  by (simp_all add: run_generation_def split: prod.splits)

lemma step_keeps_entries:
  assumes "1 \<le> length (education_entries s)" and "1 \<le> length (experience_entries s)"
  shows "1 \<le> length (education_entries (step L T cfg post s a))
         \<and> 1 \<le> length (experience_entries (step L T cfg post s a))"
proof (cases a)
  case (ApplyCorrection f)
  show ?thesis
  proof (cases "apply_correction L s f")
    case (Inl e)
    with ApplyCorrection assms show ?thesis by simp
  next
    case (Inr s')
    with ApplyCorrection assms apply_correction_entries [OF Inr] show ?thesis by simp
  qed
qed (use assms in \<open>auto simp: edit_text_entries edit_education_def edit_experience_def
      add_education_def remove_last_education_def add_experience_def
      remove_last_experience_def run_spell_check_entries run_generation_entries\<close>)

lemma reachable_entries:
  assumes "reachable L T cfg post s"
  shows "1 \<le> length (education_entries s) \<and> 1 \<le> length (experience_entries s)"
  using assms
proof (induction rule: reachable.induct)
  case reachable_init
  show ?case by (simp add: init_session_def)
next
  case (reachable_step s a)
  then show ?case using step_keeps_entries by blast
qed

text \<open>
  C7. In every session reachable from the initial one by user actions, the education
  and the experience sequence each hold at least one entry. Removing the last entry is
  refused (the session stays as it is) when exactly one entry remains. Appending a
  default entry puts it after the entries already there, and removing the last entry
  right after gives back the session as it was.
\<close>

theorem sections_never_empty:
  "(reachable L T cfg post s \<longrightarrow>
      1 \<le> length (education_entries s) \<and> 1 \<le> length (experience_entries s))
   \<and> (length (education_entries s) = 1 \<longrightarrow> remove_last_education s = s)
   \<and> (length (experience_entries s) = 1 \<longrightarrow> remove_last_experience s = s)
   \<and> education_entries (add_education s) = education_entries s @ [default_education]
   \<and> experience_entries (add_experience s) = experience_entries s @ [default_experience]
   \<and> (1 \<le> length (education_entries s) \<longrightarrow> remove_last_education (add_education s) = s)
   \<and> (1 \<le> length (experience_entries s) \<longrightarrow> remove_last_experience (add_experience s) = s)"
proof (intro conjI impI)
  assume "reachable L T cfg post s"
  then show "1 \<le> length (education_entries s)" "1 \<le> length (experience_entries s)"
    using reachable_entries by blast+
qed (auto simp: remove_last_education_def remove_last_experience_def add_education_def
      add_experience_def)

theorem sections_never_empty_witness:
  "reachable sample_lib sample_blob sample_st_cfg upstream_down
     (step sample_lib sample_blob sample_st_cfg upstream_down init_session AddEducation)
   \<and> 1 \<le> length (education_entries
          (step sample_lib sample_blob sample_st_cfg upstream_down init_session AddEducation))
   \<and> length (education_entries init_session) = 1
   \<and> remove_last_education init_session = init_session
   \<and> remove_last_education (add_education init_session) = init_session"
proof -
  have r: "reachable sample_lib sample_blob sample_st_cfg upstream_down
     (step sample_lib sample_blob sample_st_cfg upstream_down init_session AddEducation)"
    by (rule reachable_step [OF reachable_init])
  have l: "length (education_entries init_session) = 1" by (simp add: init_session_def)
  note t1 = sections_never_empty [of sample_lib sample_blob sample_st_cfg upstream_down
      "step sample_lib sample_blob sample_st_cfg upstream_down init_session AddEducation"]
  note t2 = sections_never_empty [of sample_lib sample_blob sample_st_cfg upstream_down
      init_session]
  from t1 r have "1 \<le> length (education_entries
          (step sample_lib sample_blob sample_st_cfg upstream_down init_session AddEducation))"
    by blast
  moreover from t2 l have "remove_last_education init_session = init_session" by blast
  moreover from t2 l have "remove_last_education (add_education init_session) = init_session"
    by simp
  ultimately show ?thesis using r l by blast
qed

text \<open>
  C8. When the name, the email or the summary is empty, requesting the resume shows
  the one combined validation error and nothing else, and no record is handed to the
  renderer, whatever the renderer is. A record is handed to the renderer only when all
  three fields are non-empty, and then exactly one is.
\<close>

theorem render_rejected_without_required_fields:
  "(name s = [] \<or> email s = [] \<or> summary s = [] \<longrightarrow>
      generate_resume F L cfg s
        = ([StError ''Please fill in at least the required fields (marked with *)''], []))
   \<and> (snd (generate_resume F L cfg s) \<noteq> [] \<longrightarrow>
        name s \<noteq> [] \<and> email s \<noteq> [] \<and> summary s \<noteq> [])
   \<and> (name s \<noteq> [] \<and> email s \<noteq> [] \<and> summary s \<noteq> [] \<longrightarrow>
        snd (generate_resume F L cfg s) = [resume_data_of s])"
proof -
  have rejected: "generate_resume F L cfg s
        = ([StError ''Please fill in at least the required fields (marked with *)''], [])"
    if "name s = [] \<or> email s = [] \<or> summary s = []"
    using that by (auto simp: generate_resume_def)
  have accepted: "snd (generate_resume F L cfg s) = [resume_data_of s]"
    if "name s \<noteq> [] \<and> email s \<noteq> [] \<and> summary s \<noteq> []"
    using that by (auto simp: generate_resume_def split: prod.splits option.splits)
  have only_valid: "name s \<noteq> [] \<and> email s \<noteq> [] \<and> summary s \<noteq> []"
    if "snd (generate_resume F L cfg s) \<noteq> []"
  proof (rule ccontr)
    assume "\<not> (name s \<noteq> [] \<and> email s \<noteq> [] \<and> summary s \<noteq> [])"
    then have "name s = [] \<or> email s = [] \<or> summary s = []" by blast
    from rejected [OF this] that show False by simp
  qed
  from rejected accepted only_valid show ?thesis by blast
qed

theorem render_rejected_without_required_fields_witness:
  "name init_session = []
   \<and> generate_resume sample_fpdf sample_lib sample_st_cfg init_session
       = ([StError ''Please fill in at least the required fields (marked with *)''], [])"
proof -
  have n: "name init_session = []" by (simp add: init_session_def)
  with render_rejected_without_required_fields [of init_session sample_fpdf sample_lib sample_st_cfg]
  show ?thesis by blast
qed

end
